theory Spec2Isabelle
  imports Main "HOL-Library.FSet"
begin

section \<open>Execution frames of hyperdiv (\<^verbatim>\<open>src/hyperdiv/frame.py\<close>)\<close>

text \<open>
  A frame guards access to the app runner and to the application state. The module
  defines the base class \<^verbatim>\<open>Frame\<close> with the context-variable protocol
  (\<^verbatim>\<open>__enter__\<close>, \<^verbatim>\<open>__exit__\<close>, \<^verbatim>\<open>current\<close>), the class
  \<^verbatim>\<open>StateAccessFrame\<close> with the state operations, and five subclasses that override
  some of these operations.

  Python exceptions are values of the type \<open>error\<close>; an operation returns its result
  (or the exception it raised) together with the state it leaves behind, so that the
  effects that happened before a \<^verbatim>\<open>raise\<close> stay visible.
\<close>

subsection \<open>Errors and return values\<close>

text \<open>
  The exceptions of the module, under the names of the error taxonomy:
  \<^item> \<open>NoActiveFrame\<close>: \<^verbatim>\<open>RuntimeError("There's no active Hyperdiv frame.")\<close>;
  \<^item> \<open>WrongFrame\<close>: \<^verbatim>\<open>RuntimeError("Wrong frame: ...")\<close>;
  \<^item> \<open>IllegalMutation\<close>: \<^verbatim>\<open>ValueError("Prop ... cannot be mutated.")\<close>;
  \<^item> \<open>IllegalReset\<close>: \<^verbatim>\<open>ValueError("Event prop ... cannot be reset.")\<close> and
    \<^verbatim>\<open>ValueError("Cannot reset non-event prop ...")\<close>;
  \<^item> \<open>AccessDenied\<close>: \<^verbatim>\<open>Exception("Cannot access state.")\<close>;
  \<^item> \<open>UnknownProperty\<close>: the \<^verbatim>\<open>KeyError\<close> of \<^verbatim>\<open>state.get_prop\<close>;
  \<^item> \<open>TokenAlreadyUsed\<close>: the \<^verbatim>\<open>RuntimeError\<close> of \<^verbatim>\<open>ContextVar.reset\<close> on a
    token that was used before;
  \<^item> \<open>AttributeError\<close>: reading \<^verbatim>\<open>self._current_frame_token\<close> of a frame that was
    never entered;
  \<^item> \<open>TypeError\<close>: a call with more or fewer arguments than the method declares;
  \<^item> \<open>OtherError\<close>: any other exception a collaborator raises.
\<close>

datatype error =
    NoActiveFrame
  | WrongFrame
  | IllegalMutation
  | IllegalReset
  | AccessDenied
  | UnknownProperty
  | TokenAlreadyUsed
  | AttributeError
  | TypeError
  | OtherError string

text \<open>
  What \<^verbatim>\<open>update_state\<close> and \<^verbatim>\<open>reset_state\<close> hand back to their caller: a
  method body that ends without \<^verbatim>\<open>return\<close> (or with a bare one) returns
  \<^verbatim>\<open>None\<close>.
\<close>

datatype pyval = PyNone | PyBool bool

subsection \<open>Properties and the collaborators of a frame\<close>

type_synonym key = string
type_synonym prop_name = string
type_synonym prop_id = "key \<times> prop_name"

text \<open>
  The object \<^verbatim>\<open>state.get_prop(key, prop_name)\<close> returns. The frames read its two
  flags and pass the object on; the flags belong to the property's definition and are
  not changed by a write or a reset of its value.
\<close>

record prop_obj =
  prop_key :: key
  prop_name_of :: prop_name
  is_event_prop :: bool
  backend_immutable :: bool

text \<open>
  The state store \<^verbatim>\<open>self._app_runner.state\<close> is defined outside this module. It is
  taken as a parameter: a store of any type \<open>'s\<close> with the seven operations the frames
  call. \<open>store_get_prop\<close> is \<^verbatim>\<open>get_prop\<close> (\<open>None\<close> is its \<^verbatim>\<open>KeyError\<close>),
  \<open>store_get\<close>, \<open>store_update\<close> and \<open>store_reset\<close> are \<^verbatim>\<open>_get\<close>,
  \<^verbatim>\<open>_update\<close> and \<^verbatim>\<open>_reset\<close>; the last two return whether the stored value
  changed. The outgoing-diff collaborator's query \<^verbatim>\<open>ui_prop_state.prop_changed\<close> is
  a parameter as well: its answer depends on the properties pushed so far and on the store.
\<close>

record ('s, 'v) state_ops =
  store_get :: "'s \<Rightarrow> key \<Rightarrow> prop_name \<Rightarrow> error + 'v"
  store_get_prop :: "'s \<Rightarrow> key \<Rightarrow> prop_name \<Rightarrow> prop_obj option"
  store_update :: "'s \<Rightarrow> key \<Rightarrow> prop_name \<Rightarrow> 'v \<Rightarrow> (error + bool) \<times> 's"
  store_reset :: "'s \<Rightarrow> key \<Rightarrow> prop_name \<Rightarrow> (error + bool) \<times> 's"
  store_init_props :: "'s \<Rightarrow> key \<Rightarrow> (prop_name \<times> 'v) list \<Rightarrow> (error + unit) \<times> 's"
  store_has_prop :: "'s \<Rightarrow> key \<Rightarrow> prop_name \<Rightarrow> error + bool"
  store_get_props :: "'s \<Rightarrow> key \<Rightarrow> error + prop_obj list"
  ui_prop_changed :: "prop_obj list \<Rightarrow> 's \<Rightarrow> prop_obj \<Rightarrow> bool"

text \<open>
  The app runner \<^verbatim>\<open>self._app_runner\<close>, shared by all frames: the state store and,
  for each collaborator that a frame only sends to, the sequence of calls received, in
  order:
  \<^item> \<open>ui_prop_state\<close>: the arguments of \<^verbatim>\<open>ui_prop_state.set_prop_value(prop)\<close>;
  \<^item> \<open>task_mutations\<close>: the arguments of \<^verbatim>\<open>enqueue_task_mutations(list)\<close>;
  \<^item> \<open>triggered_events\<close>: the arguments of \<^verbatim>\<open>trigger_event(prop, value)\<close>.
\<close>

record ('s, 'v) app_runner =
  state :: 's
  ui_prop_state :: "prop_obj list"
  task_mutations :: "prop_id list list"
  triggered_events :: "(prop_obj \<times> 'v) list"

subsection \<open>The class hierarchy and the current frame\<close>

datatype frame_cls =
    Frame
  | StateAccessFrame
  | AppRunnerFrame
  | TaskFrame
  | UIUpdatesFrame
  | ResetUIEventsFrame
  | RenderFrame

text \<open>
  The method resolution order of each class, read off the \<^verbatim>\<open>class\<close> statements:
  \<^verbatim>\<open>StateAccessFrame(Frame)\<close>, and every other class derives from
  \<^verbatim>\<open>StateAccessFrame\<close>. \<^verbatim>\<open>isinstance(frame, cls)\<close> holds when \<^verbatim>\<open>cls\<close> is in
  the order of \<^verbatim>\<open>type(frame)\<close>.
\<close>

fun mro :: "frame_cls \<Rightarrow> frame_cls list" where
  "mro Frame = [Frame]"
| "mro StateAccessFrame = [StateAccessFrame, Frame]"
| "mro c = [c, StateAccessFrame, Frame]"

definition issubclass :: "frame_cls \<Rightarrow> frame_cls \<Rightarrow> bool" where
  "issubclass c d = (d \<in> set (mro c))"

text \<open>
  A frame object as the context variable sees it: its identity and its class, which
  never changes.
\<close>

record frame_ref =
  addr :: nat
  cls :: frame_cls

definition isinstance :: "frame_ref \<Rightarrow> frame_cls \<Rightarrow> bool" where
  "isinstance f c = issubclass (cls f) c"

text \<open>
  The token \<^verbatim>\<open>ContextVar.set\<close> returns: the value the variable had before
  (\<open>None\<close> when it was unset) and whether the token has been used by a
  \<^verbatim>\<open>reset\<close>. All frames share the one variable \<^verbatim>\<open>Frame._current_frame\<close> and
  the model describes one execution context, so the checks of \<^verbatim>\<open>reset\<close> that the
  token belongs to the variable and to the context always pass.
\<close>

record token =
  old_value :: "frame_ref option"
  used :: bool

text \<open>
  One execution context: the value of \<^verbatim>\<open>Frame._current_frame\<close> in it (\<open>None\<close>
  when unset) and the attribute \<^verbatim>\<open>_current_frame_token\<close> of every frame object,
  absent until the frame is entered for the first time.
\<close>

record exec_context =
  current_frame :: "frame_ref option"
  current_frame_token :: "nat \<rightharpoonup> token"

text \<open>
  \<^verbatim>\<open>__enter__\<close>: \<^verbatim>\<open>self._current_frame_token = Frame._current_frame.set(self)\<close>.
\<close>

definition Frame_enter :: "frame_ref \<Rightarrow> exec_context \<Rightarrow> exec_context" where
  "Frame_enter self ctx =
     ctx\<lparr>current_frame := Some self,
         current_frame_token := (current_frame_token ctx)
           (addr self \<mapsto> \<lparr>old_value = current_frame ctx, used = False\<rparr>)\<rparr>"

text \<open>
  \<^verbatim>\<open>__exit__\<close>: \<^verbatim>\<open>Frame._current_frame.reset(self._current_frame_token)\<close>. The
  reset of a used token raises and changes nothing; otherwise the variable gets the
  token's old value back and the token is marked as used.
\<close>

definition Frame_exit :: "frame_ref \<Rightarrow> exec_context \<Rightarrow> (error + unit) \<times> exec_context" where
  "Frame_exit self ctx =
     (case current_frame_token ctx (addr self) of
        None \<Rightarrow> (Inl AttributeError, ctx)
      | Some tok \<Rightarrow>
          if used tok then (Inl TokenAlreadyUsed, ctx)
          else (Inr (),
                ctx\<lparr>current_frame := old_value tok,
                    current_frame_token := (current_frame_token ctx)
                      (addr self \<mapsto> tok\<lparr>used := True\<rparr>)\<rparr>))"

text \<open>
  \<^verbatim>\<open>with frame: body\<close>. The body is any computation on the context that returns or
  raises. \<^verbatim>\<open>__exit__\<close> runs on both paths and returns \<^verbatim>\<open>None\<close>, so an
  exception of the body propagates; an exception of \<^verbatim>\<open>__exit__\<close> itself replaces
  the outcome of the body.
\<close>

definition with_frame ::
  "frame_ref \<Rightarrow> (exec_context \<Rightarrow> (error + 'a) \<times> exec_context) \<Rightarrow> exec_context \<Rightarrow> (error + 'a) \<times> exec_context" where
  "with_frame self body ctx =
     (case body (Frame_enter self ctx) of
        (outcome, ctx') \<Rightarrow>
          (case Frame_exit self ctx' of
             (Inl e, ctx'') \<Rightarrow> (Inl e, ctx'')
           | (Inr _, ctx'') \<Rightarrow> (outcome, ctx'')))"

text \<open>
  \<^verbatim>\<open>cls.current()\<close>. A frame object defines neither \<^verbatim>\<open>__bool__\<close> nor
  \<^verbatim>\<open>__len__\<close>, so \<^verbatim>\<open>not frame\<close> holds for \<^verbatim>\<open>None\<close> only.
\<close>

definition current :: "frame_cls \<Rightarrow> exec_context \<Rightarrow> error + frame_ref" where
  "current c ctx =
     (case current_frame ctx of
        None \<Rightarrow> Inl NoActiveFrame
      | Some frame \<Rightarrow>
          if \<not> isinstance frame c then Inl WrongFrame
          else Inr frame)"

subsection \<open>StateAccessFrame\<close>

text \<open>
  The operations take the app runner the frame refers to and return it as the call
  leaves it. Calls of \<^verbatim>\<open>logger\<close> are left out: they write to the log only.
\<close>

definition truthy :: "pyval \<Rightarrow> bool" where
  "truthy x = (case x of PyNone \<Rightarrow> False | PyBool b \<Rightarrow> b)"

definition StateAccessFrame_get_state ::
  "('s, 'v) state_ops \<Rightarrow> ('s, 'v) app_runner \<Rightarrow> key \<Rightarrow> prop_name \<Rightarrow> error + 'v" where
  "StateAccessFrame_get_state ops r k pn = store_get ops (state r) k pn"

definition StateAccessFrame_update_state ::
  "('s, 'v) state_ops \<Rightarrow> ('s, 'v) app_runner \<Rightarrow> key \<Rightarrow> prop_name \<Rightarrow> 'v
     \<Rightarrow> (error + pyval) \<times> ('s, 'v) app_runner" where
  "StateAccessFrame_update_state ops r k pn v =
     (case store_get_prop ops (state r) k pn of
        None \<Rightarrow> (Inl UnknownProperty, r)
      | Some p \<Rightarrow>
          if is_event_prop p \<or> backend_immutable p then (Inl IllegalMutation, r)
          else (case store_update ops (state r) k pn v of
                  (Inl e, s') \<Rightarrow> (Inl e, r\<lparr>state := s'\<rparr>)
                | (Inr updated, s') \<Rightarrow> (Inr (PyBool updated), r\<lparr>state := s'\<rparr>)))"

definition StateAccessFrame_reset_state ::
  "('s, 'v) state_ops \<Rightarrow> ('s, 'v) app_runner \<Rightarrow> key \<Rightarrow> prop_name
     \<Rightarrow> (error + pyval) \<times> ('s, 'v) app_runner" where
  "StateAccessFrame_reset_state ops r k pn =
     (case store_get_prop ops (state r) k pn of
        None \<Rightarrow> (Inl UnknownProperty, r)
      | Some p \<Rightarrow>
          if is_event_prop p then (Inl IllegalReset, r)
          else (case store_reset ops (state r) k pn of
                  (Inl e, s') \<Rightarrow> (Inl e, r\<lparr>state := s'\<rparr>)
                | (Inr updated, s') \<Rightarrow> (Inr (PyBool updated), r\<lparr>state := s'\<rparr>)))"

definition StateAccessFrame_init_props ::
  "('s, 'v) state_ops \<Rightarrow> ('s, 'v) app_runner \<Rightarrow> key \<Rightarrow> (prop_name \<times> 'v) list
     \<Rightarrow> (error + unit) \<times> ('s, 'v) app_runner" where
  "StateAccessFrame_init_props ops r k props_with_values =
     (case store_init_props ops (state r) k props_with_values of
        (outcome, s') \<Rightarrow> (outcome, r\<lparr>state := s'\<rparr>))"

definition StateAccessFrame_has_prop ::
  "('s, 'v) state_ops \<Rightarrow> ('s, 'v) app_runner \<Rightarrow> key \<Rightarrow> prop_name \<Rightarrow> error + bool" where
  "StateAccessFrame_has_prop ops r k pn = store_has_prop ops (state r) k pn"

definition StateAccessFrame_get_props ::
  "('s, 'v) state_ops \<Rightarrow> ('s, 'v) app_runner \<Rightarrow> key \<Rightarrow> error + prop_obj list" where
  "StateAccessFrame_get_props ops r k = store_get_props ops (state r) k"

definition StateAccessFrame_trigger_event ::
  "('s, 'v) state_ops \<Rightarrow> ('s, 'v) app_runner \<Rightarrow> key \<Rightarrow> prop_name \<Rightarrow> 'v
     \<Rightarrow> (error + unit) \<times> ('s, 'v) app_runner" where
  "StateAccessFrame_trigger_event ops r k pn v =
     (case store_get_prop ops (state r) k pn of
        None \<Rightarrow> (Inl UnknownProperty, r)
      | Some p \<Rightarrow> (Inr (), r\<lparr>triggered_events := triggered_events r @ [(p, v)]\<rparr>))"

subsection \<open>AppRunnerFrame\<close>

text \<open>
  The attributes of a frame object that the state operations use.
  \<^verbatim>\<open>Frame.__init__\<close> sets \<open>component_count\<close>; \<^verbatim>\<open>AppRunnerFrame.__init__\<close> adds
  \<open>prev_frame_mutations\<close>, \<open>keys\<close>, \<open>deps\<close>, \<open>mutations\<close> and \<open>scope_stack\<close>;
  \<^verbatim>\<open>UIUpdatesFrame.__init__\<close> adds \<open>mutations\<close> and \<open>event_mutations\<close>. An
  attribute that a class does not define stays empty here, and no method of that class
  reads or writes it. The sets are Python sets, hence finite.
\<close>

record frame =
  component_count :: nat
  prev_frame_mutations :: "prop_id fset"
  keys :: "key fset"
  deps :: "prop_id fset"
  mutations :: "prop_id fset"
  event_mutations :: "prop_id fset"
  scope_stack :: "string list"

text \<open>
  \<^verbatim>\<open>AppRunnerFrame(app_runner, prev_frame_mutations=None)\<close>: a falsy argument
  (\<^verbatim>\<open>None\<close> or an empty set) gives a fresh empty set.
\<close>

definition AppRunnerFrame_init :: "prop_id fset option \<Rightarrow> frame" where
  "AppRunnerFrame_init prev =
     \<lparr>component_count = 0,
      prev_frame_mutations =
        (case prev of None \<Rightarrow> {||} | Some m \<Rightarrow> if m \<noteq> {||} then m else {||}),
      keys = {||}, deps = {||}, mutations = {||}, event_mutations = {||},
      scope_stack = []\<rparr>"

definition AppRunnerFrame_get_state ::
  "('s, 'v) state_ops \<Rightarrow> frame \<Rightarrow> ('s, 'v) app_runner \<Rightarrow> key \<Rightarrow> prop_name
     \<Rightarrow> (error + 'v) \<times> frame" where
  "AppRunnerFrame_get_state ops self r k pn =
     (case StateAccessFrame_get_state ops r k pn of
        Inl e \<Rightarrow> (Inl e, self)
      | Inr v \<Rightarrow> (Inr v, self\<lparr>deps := finsert (k, pn) (deps self)\<rparr>))"

definition AppRunnerFrame_update_state ::
  "('s, 'v) state_ops \<Rightarrow> frame \<Rightarrow> ('s, 'v) app_runner \<Rightarrow> key \<Rightarrow> prop_name \<Rightarrow> 'v
     \<Rightarrow> (error + pyval) \<times> frame \<times> ('s, 'v) app_runner" where
  "AppRunnerFrame_update_state ops self r k pn v =
     (case StateAccessFrame_update_state ops r k pn v of
        (Inl e, r') \<Rightarrow> (Inl e, self, r')
      | (Inr updated, r') \<Rightarrow>
          (Inr PyNone,
           if truthy updated then self\<lparr>mutations := finsert (k, pn) (mutations self)\<rparr>
           else self,
           r'))"

definition AppRunnerFrame_reset_state ::
  "('s, 'v) state_ops \<Rightarrow> frame \<Rightarrow> ('s, 'v) app_runner \<Rightarrow> key \<Rightarrow> prop_name
     \<Rightarrow> (error + pyval) \<times> frame \<times> ('s, 'v) app_runner" where
  "AppRunnerFrame_reset_state ops self r k pn =
     (case StateAccessFrame_reset_state ops r k pn of
        (Inl e, r') \<Rightarrow> (Inl e, self, r')
      | (Inr updated, r') \<Rightarrow>
          (Inr PyNone,
           if truthy updated then self\<lparr>mutations := finsert (k, pn) (mutations self)\<rparr>
           else self,
           r'))"

definition filter_dirty_deps :: "frame \<Rightarrow> prop_id fset \<Rightarrow> prop_id fset" where
  "filter_dirty_deps self ds = (mutations self |\<union>| prev_frame_mutations self) |\<inter>| ds"

definition deps_are_dirty :: "frame \<Rightarrow> prop_id fset \<Rightarrow> bool" where
  "deps_are_dirty self ds = (fcard (filter_dirty_deps self ds) > 0)"

subsection \<open>TaskFrame\<close>

definition TaskFrame_update_state ::
  "('s, 'v) state_ops \<Rightarrow> ('s, 'v) app_runner \<Rightarrow> key \<Rightarrow> prop_name \<Rightarrow> 'v
     \<Rightarrow> (error + pyval) \<times> ('s, 'v) app_runner" where
  "TaskFrame_update_state ops r k pn v =
     (case StateAccessFrame_update_state ops r k pn v of
        (Inl e, r') \<Rightarrow> (Inl e, r')
      | (Inr updated, r') \<Rightarrow>
          (Inr PyNone,
           if truthy updated then r'\<lparr>task_mutations := task_mutations r' @ [ [(k, pn)] ]\<rparr>
           else r'))"

definition TaskFrame_reset_state ::
  "('s, 'v) state_ops \<Rightarrow> ('s, 'v) app_runner \<Rightarrow> key \<Rightarrow> prop_name
     \<Rightarrow> (error + pyval) \<times> ('s, 'v) app_runner" where
  "TaskFrame_reset_state ops r k pn =
     (case StateAccessFrame_reset_state ops r k pn of
        (Inl e, r') \<Rightarrow> (Inl e, r')
      | (Inr updated, r') \<Rightarrow>
          (Inr PyNone,
           if truthy updated then r'\<lparr>task_mutations := task_mutations r' @ [ [(k, pn)] ]\<rparr>
           else r'))"

subsection \<open>UIUpdatesFrame\<close>

definition UIUpdatesFrame_init :: frame where
  "UIUpdatesFrame_init =
     \<lparr>component_count = 0, prev_frame_mutations = {||}, keys = {||}, deps = {||},
      mutations = {||}, event_mutations = {||}, scope_stack = []\<rparr>"

text \<open>
  The bookkeeping both operations do after an actual change: record the pair in
  \<open>mutations\<close>, also in \<open>event_mutations\<close> for an event property, and call
  \<^verbatim>\<open>ui_prop_state.set_prop_value(prop)\<close>.
\<close>

definition record_ui_mutation :: "prop_obj \<Rightarrow> prop_id \<Rightarrow> frame \<Rightarrow> frame" where
  "record_ui_mutation p kp self =
     (let self1 = self\<lparr>mutations := finsert kp (mutations self)\<rparr>
      in if is_event_prop p
         then self1\<lparr>event_mutations := finsert kp (event_mutations self1)\<rparr>
         else self1)"

definition UIUpdatesFrame_update_state ::
  "('s, 'v) state_ops \<Rightarrow> frame \<Rightarrow> ('s, 'v) app_runner \<Rightarrow> key \<Rightarrow> prop_name \<Rightarrow> 'v
     \<Rightarrow> (error + pyval) \<times> frame \<times> ('s, 'v) app_runner" where
  "UIUpdatesFrame_update_state ops self r k pn v =
     (case store_get_prop ops (state r) k pn of
        None \<Rightarrow> (Inr PyNone, self, r)
      | Some p \<Rightarrow>
          (case store_update ops (state r) k pn v of
             (Inl e, s') \<Rightarrow> (Inl e, self, r\<lparr>state := s'\<rparr>)
           | (Inr updated, s') \<Rightarrow>
               if updated
               then (Inr PyNone, record_ui_mutation p (k, pn) self,
                     r\<lparr>state := s', ui_prop_state := ui_prop_state r @ [p]\<rparr>)
               else (Inr PyNone, self, r\<lparr>state := s'\<rparr>)))"

definition UIUpdatesFrame_reset_state ::
  "('s, 'v) state_ops \<Rightarrow> frame \<Rightarrow> ('s, 'v) app_runner \<Rightarrow> key \<Rightarrow> prop_name
     \<Rightarrow> (error + pyval) \<times> frame \<times> ('s, 'v) app_runner" where
  "UIUpdatesFrame_reset_state ops self r k pn =
     (case store_get_prop ops (state r) k pn of
        None \<Rightarrow> (Inl UnknownProperty, self, r)
      | Some p \<Rightarrow>
          (case store_reset ops (state r) k pn of
             (Inl e, s') \<Rightarrow> (Inl e, self, r\<lparr>state := s'\<rparr>)
           | (Inr updated, s') \<Rightarrow>
               if updated
               then (Inr PyNone, record_ui_mutation p (k, pn) self,
                     r\<lparr>state := s', ui_prop_state := ui_prop_state r @ [p]\<rparr>)
               else (Inr PyNone, self, r\<lparr>state := s'\<rparr>)))"

definition UIUpdatesFrame_trigger_event ::
  "('s, 'v) app_runner \<Rightarrow> prop_obj \<Rightarrow> 'v \<Rightarrow> (error + unit) \<times> ('s, 'v) app_runner" where
  "UIUpdatesFrame_trigger_event r p v = (Inl AccessDenied, r)"

subsection \<open>ResetUIEventsFrame\<close>

definition ResetUIEventsFrame_get_state ::
  "('s, 'v) app_runner \<Rightarrow> key \<Rightarrow> prop_name \<Rightarrow> error + 'v" where
  "ResetUIEventsFrame_get_state r k pn = Inl AccessDenied"

definition ResetUIEventsFrame_init_props ::
  "('s, 'v) app_runner \<Rightarrow> key \<Rightarrow> (prop_name \<times> 'v) list
     \<Rightarrow> (error + unit) \<times> ('s, 'v) app_runner" where
  "ResetUIEventsFrame_init_props r k props_with_values = (Inl AccessDenied, r)"

definition ResetUIEventsFrame_has_prop ::
  "('s, 'v) app_runner \<Rightarrow> key \<Rightarrow> prop_name \<Rightarrow> error + bool" where
  "ResetUIEventsFrame_has_prop r k pn = Inl AccessDenied"

definition ResetUIEventsFrame_update_state ::
  "('s, 'v) app_runner \<Rightarrow> key \<Rightarrow> prop_name \<Rightarrow> 'v
     \<Rightarrow> (error + pyval) \<times> ('s, 'v) app_runner" where
  "ResetUIEventsFrame_update_state r k pn v = (Inl AccessDenied, r)"

definition ResetUIEventsFrame_get_props ::
  "('s, 'v) app_runner \<Rightarrow> key \<Rightarrow> error + prop_obj list" where
  "ResetUIEventsFrame_get_props r k = Inl AccessDenied"

definition ResetUIEventsFrame_trigger_event ::
  "('s, 'v) app_runner \<Rightarrow> prop_obj \<Rightarrow> 'v \<Rightarrow> (error + unit) \<times> ('s, 'v) app_runner" where
  "ResetUIEventsFrame_trigger_event r p v = (Inl AccessDenied, r)"

text \<open>
  \<^verbatim>\<open>reset_state\<close> ends without a \<^verbatim>\<open>return\<close>: what \<^verbatim>\<open>_reset\<close> reports is
  dropped.
\<close>

definition ResetUIEventsFrame_reset_state ::
  "('s, 'v) state_ops \<Rightarrow> ('s, 'v) app_runner \<Rightarrow> key \<Rightarrow> prop_name
     \<Rightarrow> (error + pyval) \<times> ('s, 'v) app_runner" where
  "ResetUIEventsFrame_reset_state ops r k pn =
     (case store_get_prop ops (state r) k pn of
        None \<Rightarrow> (Inl UnknownProperty, r)
      | Some p \<Rightarrow>
          if \<not> is_event_prop p then (Inl IllegalReset, r)
          else (case store_reset ops (state r) k pn of
                  (Inl e, s') \<Rightarrow> (Inl e, r\<lparr>state := s'\<rparr>)
                | (Inr updated, s') \<Rightarrow> (Inr PyNone, r\<lparr>state := s'\<rparr>)))"

subsection \<open>RenderFrame\<close>

definition RenderFrame_get_state ::
  "('s, 'v) app_runner \<Rightarrow> key \<Rightarrow> prop_name \<Rightarrow> error + 'v" where
  "RenderFrame_get_state r k pn = Inl AccessDenied"

definition RenderFrame_update_state ::
  "('s, 'v) app_runner \<Rightarrow> key \<Rightarrow> prop_name \<Rightarrow> 'v
     \<Rightarrow> (error + pyval) \<times> ('s, 'v) app_runner" where
  "RenderFrame_update_state r k pn v = (Inl AccessDenied, r)"

definition RenderFrame_reset_state ::
  "('s, 'v) app_runner \<Rightarrow> key \<Rightarrow> prop_name \<Rightarrow> (error + pyval) \<times> ('s, 'v) app_runner" where
  "RenderFrame_reset_state r k pn = (Inl AccessDenied, r)"

definition RenderFrame_trigger_event ::
  "('s, 'v) app_runner \<Rightarrow> prop_obj \<Rightarrow> 'v \<Rightarrow> (error + unit) \<times> ('s, 'v) app_runner" where
  "RenderFrame_trigger_event r p v = (Inl AccessDenied, r)"

definition RenderFrame_prop_changed ::
  "('s, 'v) state_ops \<Rightarrow> ('s, 'v) app_runner \<Rightarrow> prop_obj \<Rightarrow> bool" where
  "RenderFrame_prop_changed ops r p = ui_prop_changed ops (ui_prop_state r) (state r) p"

subsection \<open>Method lookup\<close>

text \<open>
  Which of the state operations the body of each class defines, read off the source.
  A call \<^verbatim>\<open>frame.m(...)\<close> runs the definition of the first class in the method
  resolution order of \<^verbatim>\<open>type(frame)\<close> that defines \<^verbatim>\<open>m\<close>.
\<close>

fun class_defines :: "frame_cls \<Rightarrow> string list" where
  "class_defines Frame = []"
| "class_defines StateAccessFrame =
     [''get_state'', ''update_state'', ''reset_state'', ''init_props'', ''has_prop'',
      ''get_props'', ''trigger_event'']"
| "class_defines AppRunnerFrame = [''get_state'', ''update_state'', ''reset_state'']"
| "class_defines TaskFrame = [''update_state'', ''reset_state'']"
| "class_defines UIUpdatesFrame = [''update_state'', ''reset_state'', ''trigger_event'']"
| "class_defines ResetUIEventsFrame =
     [''get_state'', ''init_props'', ''has_prop'', ''update_state'', ''get_props'',
      ''trigger_event'', ''reset_state'']"
| "class_defines RenderFrame =
     [''get_state'', ''update_state'', ''reset_state'', ''trigger_event'', ''prop_changed'']"

definition resolve :: "frame_cls \<Rightarrow> string \<Rightarrow> frame_cls option" where
  "resolve c m = find (\<lambda>d. m \<in> set (class_defines d)) (mro c)"

text \<open>
  The calls \<^verbatim>\<open>frame.get_state(key, prop_name)\<close>, \<^verbatim>\<open>frame.update_state(key,
  prop_name, value)\<close> and so on, for a frame of class \<open>c\<close> with the attributes
  \<open>self\<close>. A class without the method (\<^verbatim>\<open>Frame\<close>) gives an
  \<^verbatim>\<open>AttributeError\<close>.
\<close>

definition get_state ::
  "('s, 'v) state_ops \<Rightarrow> frame_cls \<Rightarrow> frame \<Rightarrow> ('s, 'v) app_runner \<Rightarrow> key \<Rightarrow> prop_name
     \<Rightarrow> (error + 'v) \<times> frame" where
  "get_state ops c self r k pn =
     (case resolve c ''get_state'' of
        Some StateAccessFrame \<Rightarrow> (StateAccessFrame_get_state ops r k pn, self)
      | Some AppRunnerFrame \<Rightarrow> AppRunnerFrame_get_state ops self r k pn
      | Some ResetUIEventsFrame \<Rightarrow> (ResetUIEventsFrame_get_state r k pn, self)
      | Some RenderFrame \<Rightarrow> (RenderFrame_get_state r k pn, self)
      | _ \<Rightarrow> (Inl AttributeError, self))"

definition update_state ::
  "('s, 'v) state_ops \<Rightarrow> frame_cls \<Rightarrow> frame \<Rightarrow> ('s, 'v) app_runner \<Rightarrow> key \<Rightarrow> prop_name \<Rightarrow> 'v
     \<Rightarrow> (error + pyval) \<times> frame \<times> ('s, 'v) app_runner" where
  "update_state ops c self r k pn v =
     (case resolve c ''update_state'' of
        Some StateAccessFrame \<Rightarrow>
          (case StateAccessFrame_update_state ops r k pn v of (res, r') \<Rightarrow> (res, self, r'))
      | Some AppRunnerFrame \<Rightarrow> AppRunnerFrame_update_state ops self r k pn v
      | Some TaskFrame \<Rightarrow>
          (case TaskFrame_update_state ops r k pn v of (res, r') \<Rightarrow> (res, self, r'))
      | Some UIUpdatesFrame \<Rightarrow> UIUpdatesFrame_update_state ops self r k pn v
      | Some ResetUIEventsFrame \<Rightarrow>
          (case ResetUIEventsFrame_update_state r k pn v of (res, r') \<Rightarrow> (res, self, r'))
      | Some RenderFrame \<Rightarrow>
          (case RenderFrame_update_state r k pn v of (res, r') \<Rightarrow> (res, self, r'))
      | _ \<Rightarrow> (Inl AttributeError, self, r))"

definition reset_state ::
  "('s, 'v) state_ops \<Rightarrow> frame_cls \<Rightarrow> frame \<Rightarrow> ('s, 'v) app_runner \<Rightarrow> key \<Rightarrow> prop_name
     \<Rightarrow> (error + pyval) \<times> frame \<times> ('s, 'v) app_runner" where
  "reset_state ops c self r k pn =
     (case resolve c ''reset_state'' of
        Some StateAccessFrame \<Rightarrow>
          (case StateAccessFrame_reset_state ops r k pn of (res, r') \<Rightarrow> (res, self, r'))
      | Some AppRunnerFrame \<Rightarrow> AppRunnerFrame_reset_state ops self r k pn
      | Some TaskFrame \<Rightarrow>
          (case TaskFrame_reset_state ops r k pn of (res, r') \<Rightarrow> (res, self, r'))
      | Some UIUpdatesFrame \<Rightarrow> UIUpdatesFrame_reset_state ops self r k pn
      | Some ResetUIEventsFrame \<Rightarrow>
          (case ResetUIEventsFrame_reset_state ops r k pn of (res, r') \<Rightarrow> (res, self, r'))
      | Some RenderFrame \<Rightarrow>
          (case RenderFrame_reset_state r k pn of (res, r') \<Rightarrow> (res, self, r'))
      | _ \<Rightarrow> (Inl AttributeError, self, r))"

definition init_props ::
  "('s, 'v) state_ops \<Rightarrow> frame_cls \<Rightarrow> ('s, 'v) app_runner \<Rightarrow> key \<Rightarrow> (prop_name \<times> 'v) list
     \<Rightarrow> (error + unit) \<times> ('s, 'v) app_runner" where
  "init_props ops c r k props_with_values =
     (case resolve c ''init_props'' of
        Some StateAccessFrame \<Rightarrow> StateAccessFrame_init_props ops r k props_with_values
      | Some ResetUIEventsFrame \<Rightarrow> ResetUIEventsFrame_init_props r k props_with_values
      | _ \<Rightarrow> (Inl AttributeError, r))"

definition has_prop ::
  "('s, 'v) state_ops \<Rightarrow> frame_cls \<Rightarrow> ('s, 'v) app_runner \<Rightarrow> key \<Rightarrow> prop_name
     \<Rightarrow> error + bool" where
  "has_prop ops c r k pn =
     (case resolve c ''has_prop'' of
        Some StateAccessFrame \<Rightarrow> StateAccessFrame_has_prop ops r k pn
      | Some ResetUIEventsFrame \<Rightarrow> ResetUIEventsFrame_has_prop r k pn
      | _ \<Rightarrow> Inl AttributeError)"

definition get_props ::
  "('s, 'v) state_ops \<Rightarrow> frame_cls \<Rightarrow> ('s, 'v) app_runner \<Rightarrow> key
     \<Rightarrow> error + prop_obj list" where
  "get_props ops c r k =
     (case resolve c ''get_props'' of
        Some StateAccessFrame \<Rightarrow> StateAccessFrame_get_props ops r k
      | Some ResetUIEventsFrame \<Rightarrow> ResetUIEventsFrame_get_props r k
      | _ \<Rightarrow> Inl AttributeError)"

text \<open>
  The call \<^verbatim>\<open>frame.trigger_event(key, prop_name, value)\<close>, with the three arguments
  that \<^verbatim>\<open>StateAccessFrame.trigger_event\<close> declares. The overrides in
  \<^verbatim>\<open>UIUpdatesFrame\<close>, \<^verbatim>\<open>ResetUIEventsFrame\<close> and \<^verbatim>\<open>RenderFrame\<close> declare
  \<^verbatim>\<open>(self, prop, value)\<close>: called with three arguments they raise a
  \<^verbatim>\<open>TypeError\<close> before their body runs. Their bodies, which raise
  \<^verbatim>\<open>Exception("Cannot access state.")\<close>, are reached by a call with two arguments
  only.
\<close>

definition trigger_event ::
  "('s, 'v) state_ops \<Rightarrow> frame_cls \<Rightarrow> ('s, 'v) app_runner \<Rightarrow> key \<Rightarrow> prop_name \<Rightarrow> 'v
     \<Rightarrow> (error + unit) \<times> ('s, 'v) app_runner" where
  "trigger_event ops c r k pn v =
     (case resolve c ''trigger_event'' of
        Some StateAccessFrame \<Rightarrow> StateAccessFrame_trigger_event ops r k pn v
      | Some UIUpdatesFrame \<Rightarrow> (Inl TypeError, r)
      | Some ResetUIEventsFrame \<Rightarrow> (Inl TypeError, r)
      | Some RenderFrame \<Rightarrow> (Inl TypeError, r)
      | _ \<Rightarrow> (Inl AttributeError, r))"

subsection \<open>A concrete state store\<close>

text \<open>
  Modelled from the spec: the state store and the outgoing-diff tracker, whose code is
  not part of \<^verbatim>\<open>frame.py\<close>. The store holds, for each (key, property name) pair, the
  property object, its current value and its initial value. \<^verbatim>\<open>get_prop\<close> fails on a
  pair the store does not hold; \<^verbatim>\<open>_update\<close> and \<^verbatim>\<open>_reset\<close> return whether the
  value differed from the current one; the tracker reports a property as changed when
  it was pushed. The theorems below hold for every store; this one serves to run the
  operations on concrete inputs.
\<close>

record 'v stored =
  stored_prop :: prop_obj
  stored_value :: 'v
  stored_initial :: 'v

type_synonym 'v store = "(prop_id \<times> 'v stored) list"

definition set_value :: "prop_id \<Rightarrow> 'v \<Rightarrow> 'v store \<Rightarrow> 'v store" where
  "set_value kp v s =
     map (\<lambda>(q, e). if q = kp then (q, e\<lparr>stored_value := v\<rparr>) else (q, e)) s"

definition new_prop :: "key \<Rightarrow> prop_name \<times> 'v \<Rightarrow> prop_id \<times> 'v stored" where
  "new_prop k pv =
     ((k, fst pv),
      \<lparr>stored_prop = \<lparr>prop_key = k, prop_name_of = fst pv, is_event_prop = False,
                       backend_immutable = False\<rparr>,
       stored_value = snd pv, stored_initial = snd pv\<rparr>)"

definition list_store :: "('v store, 'v) state_ops" where
  "list_store =
     \<lparr>store_get = (\<lambda>s k pn.
        case map_of s (k, pn) of
          None \<Rightarrow> Inl UnknownProperty
        | Some e \<Rightarrow> Inr (stored_value e)),
      store_get_prop = (\<lambda>s k pn. map_option stored_prop (map_of s (k, pn))),
      store_update = (\<lambda>s k pn v.
        case map_of s (k, pn) of
          None \<Rightarrow> (Inl UnknownProperty, s)
        | Some e \<Rightarrow> (Inr (stored_value e \<noteq> v), set_value (k, pn) v s)),
      store_reset = (\<lambda>s k pn.
        case map_of s (k, pn) of
          None \<Rightarrow> (Inl UnknownProperty, s)
        | Some e \<Rightarrow>
            (Inr (stored_value e \<noteq> stored_initial e), set_value (k, pn) (stored_initial e) s)),
      store_init_props = (\<lambda>s k pvs.
        (Inr (), s @ map (new_prop k) (filter (\<lambda>pv. map_of s (k, fst pv) = None) pvs))),
      store_has_prop = (\<lambda>s k pn. Inr (map_of s (k, pn) \<noteq> None)),
      store_get_props = (\<lambda>s k. Inr (map (\<lambda>(q, e). stored_prop e) (filter (\<lambda>(q, e). fst q = k) s))),
      ui_prop_changed = (\<lambda>pushed s p. p \<in> set pushed)\<rparr>"

text \<open>
  A store with an ordinary property, an event property and a backend-immutable one,
  and an app runner on it that has received no call yet.
\<close>

definition count_prop :: prop_obj where
  "count_prop = \<lparr>prop_key = ''k1'', prop_name_of = ''count'', is_event_prop = False,
                  backend_immutable = False\<rparr>"

definition clicked_prop :: prop_obj where
  "clicked_prop = \<lparr>prop_key = ''k1'', prop_name_of = ''clicked'', is_event_prop = True,
                    backend_immutable = False\<rparr>"

definition width_prop :: prop_obj where
  "width_prop = \<lparr>prop_key = ''k2'', prop_name_of = ''width'', is_event_prop = False,
                  backend_immutable = True\<rparr>"

definition store0 :: "int store" where
  "store0 =
     [((''k1'', ''count''), \<lparr>stored_prop = count_prop, stored_value = 5, stored_initial = 0\<rparr>),
      ((''k1'', ''clicked''), \<lparr>stored_prop = clicked_prop, stored_value = 1, stored_initial = 0\<rparr>),
      ((''k2'', ''width''), \<lparr>stored_prop = width_prop, stored_value = 80, stored_initial = 80\<rparr>)]"

definition runner0 :: "(int store, int) app_runner" where
  "runner0 = \<lparr>state = store0, ui_prop_state = [], task_mutations = [], triggered_events = []\<rparr>"

text \<open>
  Two frame objects of classes that do not derive from each other, a context in which
  no frame is current, and a bracketed body that raises at once.
\<close>

definition frame_a :: frame_ref where
  "frame_a = \<lparr>addr = 1, cls = AppRunnerFrame\<rparr>"

definition frame_b :: frame_ref where
  "frame_b = \<lparr>addr = 2, cls = RenderFrame\<rparr>"

definition ctx0 :: exec_context where
  "ctx0 = \<lparr>current_frame = None, current_frame_token = Map.empty\<rparr>"

definition raising_body :: "exec_context \<Rightarrow> (error + unit) \<times> exec_context" where
  "raising_body ctx = (Inl (OtherError ''boom''), ctx)"

text \<open>
  A bracketed body that enters \<open>frame_b\<close> once more and returns normally:
  \<^verbatim>\<open>with frame_b: pass\<close>.
\<close>

definition reentering_body :: "exec_context \<Rightarrow> (error + unit) \<times> exec_context" where
  "reentering_body ctx = with_frame frame_b (\<lambda>ctx'. (Inr (), ctx')) ctx"

text \<open>
  The attributes of a frame whose class adds none to those of \<^verbatim>\<open>Frame.__init__\<close>.
\<close>

definition Frame_init :: frame where
  "Frame_init =
     \<lparr>component_count = 0, prev_frame_mutations = {||}, keys = {||}, deps = {||},
      mutations = {||}, event_mutations = {||}, scope_stack = []\<rparr>"

text \<open>
  The attributes of an AppRunnerFrame that was created with
  \<^verbatim>\<open>prev_frame_mutations = {("k1", "count")}\<close>, has read \<^verbatim>\<open>("k2", "width")\<close> and
  has written a new value to \<^verbatim>\<open>("k1", "count")\<close>.
\<close>

definition dirty_frame :: frame where
  "dirty_frame =
     \<lparr>component_count = 0, prev_frame_mutations = {|(''k1'', ''count'')|}, keys = {||},
      deps = {|(''k2'', ''width'')|}, mutations = {|(''k1'', ''count'')|},
      event_mutations = {||}, scope_stack = []\<rparr>"

section \<open>Properties\<close>

subsection \<open>Auxiliary facts\<close>

lemma issubclass_iff:
  "issubclass c d \<longleftrightarrow> c = d \<or> d = Frame \<or> (d = StateAccessFrame \<and> c \<noteq> Frame)"
  by (cases c) (auto simp: issubclass_def)

lemma resolve_simps:
  "resolve StateAccessFrame ''update_state'' = Some StateAccessFrame"
  "resolve AppRunnerFrame ''update_state'' = Some AppRunnerFrame"
  "resolve TaskFrame ''update_state'' = Some TaskFrame"
  "resolve UIUpdatesFrame ''update_state'' = Some UIUpdatesFrame"
  "resolve ResetUIEventsFrame ''update_state'' = Some ResetUIEventsFrame"
  "resolve RenderFrame ''update_state'' = Some RenderFrame"
  "resolve StateAccessFrame ''reset_state'' = Some StateAccessFrame"
  "resolve AppRunnerFrame ''reset_state'' = Some AppRunnerFrame"
  "resolve TaskFrame ''reset_state'' = Some TaskFrame"
  "resolve UIUpdatesFrame ''reset_state'' = Some UIUpdatesFrame"
  "resolve ResetUIEventsFrame ''reset_state'' = Some ResetUIEventsFrame"
  "resolve RenderFrame ''reset_state'' = Some RenderFrame"
  "resolve RenderFrame ''get_state'' = Some RenderFrame"
  "resolve RenderFrame ''init_props'' = Some StateAccessFrame"
  "resolve RenderFrame ''has_prop'' = Some StateAccessFrame"
  "resolve RenderFrame ''get_props'' = Some StateAccessFrame"
  "resolve RenderFrame ''trigger_event'' = Some RenderFrame"
  "resolve Frame ''update_state'' = None"
  by (simp_all add: resolve_def)

lemmas store0_defs =
  list_store_def runner0_def store0_def count_prop_def clicked_prop_def width_prop_def
  set_value_def Frame_init_def AppRunnerFrame_init_def UIUpdatesFrame_init_def

lemma enter_current: "current_frame (Frame_enter B ctx) = Some B"
  by (simp add: Frame_enter_def)

lemma enter_token:
  "current_frame_token (Frame_enter B ctx) (addr B) =
     Some \<lparr>old_value = current_frame ctx, used = False\<rparr>"
  by (simp add: Frame_enter_def)

lemma exit_fresh_token:
  assumes "current_frame_token ctx (addr B) = Some \<lparr>old_value = old, used = False\<rparr>"
  shows "Frame_exit B ctx =
    (Inr (), ctx\<lparr>current_frame := old,
                 current_frame_token := (current_frame_token ctx)
                   (addr B \<mapsto> \<lparr>old_value = old, used = True\<rparr>)\<rparr>)"
  using assms by (simp add: Frame_exit_def)

lemma exit_used_token:
  assumes "current_frame_token ctx (addr B) = Some tok" and "used tok"
  shows "Frame_exit B ctx = (Inl TokenAlreadyUsed, ctx)"
  using assms by (simp add: Frame_exit_def)

text \<open>
  A bracket whose body leaves the token of its frame alone hands on the outcome of the
  body, puts back the frame that was current before, and uses the token up.
\<close>

lemma with_frame_restores:
  assumes "current_frame_token (snd (body (Frame_enter B ctx))) (addr B)
           = current_frame_token (Frame_enter B ctx) (addr B)"
  shows "fst (with_frame B body ctx) = fst (body (Frame_enter B ctx))"
    and "current_frame (snd (with_frame B body ctx)) = current_frame ctx"
    and "Frame_exit B (snd (with_frame B body ctx))
         = (Inl TokenAlreadyUsed, snd (with_frame B body ctx))"
proof -
  obtain out ctx' where b: "body (Frame_enter B ctx) = (out, ctx')"
    by (cases "body (Frame_enter B ctx)")
  with assms have tok:
    "current_frame_token ctx' (addr B) = Some \<lparr>old_value = current_frame ctx, used = False\<rparr>"
    by (simp add: enter_token)
  have wf: "with_frame B body ctx =
      (out, ctx'\<lparr>current_frame := current_frame ctx,
                current_frame_token := (current_frame_token ctx')
                  (addr B \<mapsto> \<lparr>old_value = current_frame ctx, used = True\<rparr>)\<rparr>)"
    by (simp add: with_frame_def b exit_fresh_token [OF tok])
  show "fst (with_frame B body ctx) = fst (body (Frame_enter B ctx))"
    by (simp add: wf b)
  show "current_frame (snd (with_frame B body ctx)) = current_frame ctx"
    by (simp add: wf)
  show "Frame_exit B (snd (with_frame B body ctx))
        = (Inl TokenAlreadyUsed, snd (with_frame B body ctx))"
    by (rule exit_used_token [where tok = "\<lparr>old_value = current_frame ctx, used = True\<rparr>"])
       (simp_all add: wf)
qed

subsection \<open>Dirty dependencies\<close>

text \<open>
  Claim C1. For every AppRunnerFrame and every set of (key, prop) pairs,
  \<^verbatim>\<open>filter_dirty_deps(deps)\<close> is the intersection of \<^verbatim>\<open>deps\<close> with the union of
  \<^verbatim>\<open>mutations\<close> and \<^verbatim>\<open>prev_frame_mutations\<close>, and \<^verbatim>\<open>deps_are_dirty(deps)\<close>
  is true if and only if that intersection is not empty.
\<close>

theorem filter_dirty_deps_inter:
  "filter_dirty_deps f ds = ds |\<inter>| (mutations f |\<union>| prev_frame_mutations f) \<and>
   (deps_are_dirty f ds \<longleftrightarrow> ds |\<inter>| (mutations f |\<union>| prev_frame_mutations f) \<noteq> {||})"
proof -
  have eq: "filter_dirty_deps f ds = ds |\<inter>| (mutations f |\<union>| prev_frame_mutations f)"
    by (simp add: filter_dirty_deps_def inf_commute)
  have "deps_are_dirty f ds \<longleftrightarrow> filter_dirty_deps f ds \<noteq> {||}"
    unfolding deps_are_dirty_def using fcard_0_eq [of "filter_dirty_deps f ds"] by arith
  then show ?thesis using eq by simp
qed

theorem filter_dirty_deps_inter_witness:
  "snd (AppRunnerFrame_get_state list_store
          (AppRunnerFrame_init (Some {|(''k1'', ''count'')|})) runner0 ''k2'' ''width'')
     = (AppRunnerFrame_init (Some {|(''k1'', ''count'')|}))\<lparr>deps := {|(''k2'', ''width'')|}\<rparr> \<and>
   fst (snd (AppRunnerFrame_update_state list_store
          ((AppRunnerFrame_init (Some {|(''k1'', ''count'')|}))\<lparr>deps := {|(''k2'', ''width'')|}\<rparr>)
          runner0 ''k1'' ''count'' 7))
     = dirty_frame \<and>
   filter_dirty_deps dirty_frame {|(''k1'', ''count''), (''k2'', ''width'')|}
     = {|(''k1'', ''count'')|} \<and>
   deps_are_dirty dirty_frame {|(''k1'', ''count'')|} \<and>
   \<not> deps_are_dirty dirty_frame {|(''k3'', ''size'')|}"
  using filter_dirty_deps_inter [of dirty_frame "{|(''k1'', ''count''), (''k2'', ''width'')|}"]
    filter_dirty_deps_inter [of dirty_frame "{|(''k1'', ''count'')|}"]
    filter_dirty_deps_inter [of dirty_frame "{|(''k3'', ''size'')|}"]
  by (simp add: dirty_frame_def store0_defs AppRunnerFrame_get_state_def
      StateAccessFrame_get_state_def AppRunnerFrame_update_state_def
      StateAccessFrame_update_state_def truthy_def)

subsection \<open>The current frame\<close>

text \<open>
  Claim C2, as the source has it. Let A and B be frames whose classes do not derive
  from each other. After entering A and then B, \<^verbatim>\<open>current\<close> on the class of B
  returns B and \<^verbatim>\<open>current\<close> on the class of A fails with \<open>WrongFrame\<close>; after
  the exit of B, A is current again. For the bracket \<^verbatim>\<open>with B: body\<close> the same
  holds whatever the body returns or raises, provided that the body leaves the token of
  B as \<^verbatim>\<open>__enter__\<close> set it, that is, it neither enters nor exits B itself: then
  the outcome of the body is handed on, A is current afterwards, and the restoration
  has happened exactly once, since the token is used up and a further
  \<^verbatim>\<open>__exit__\<close> of B raises and changes nothing.
\<close>

theorem exclusive_current_frame:
  assumes unrelated: "\<not> issubclass (cls A) (cls B)" "\<not> issubclass (cls B) (cls A)"
  shows "current (cls B) (Frame_enter B (Frame_enter A ctx)) = Inr B \<and>
         current (cls A) (Frame_enter B (Frame_enter A ctx)) = Inl WrongFrame \<and>
         fst (Frame_exit B (Frame_enter B (Frame_enter A ctx))) = Inr () \<and>
         current (cls A) (snd (Frame_exit B (Frame_enter B (Frame_enter A ctx)))) = Inr A \<and>
         (current_frame_token (snd (body (Frame_enter B (Frame_enter A ctx)))) (addr B)
            = current_frame_token (Frame_enter B (Frame_enter A ctx)) (addr B) \<longrightarrow>
          fst (with_frame B body (Frame_enter A ctx))
            = fst (body (Frame_enter B (Frame_enter A ctx))) \<and>
          current (cls A) (snd (with_frame B body (Frame_enter A ctx))) = Inr A \<and>
          Frame_exit B (snd (with_frame B body (Frame_enter A ctx)))
            = (Inl TokenAlreadyUsed, snd (with_frame B body (Frame_enter A ctx))))"
proof -
  have refl: "issubclass (cls A) (cls A)" "issubclass (cls B) (cls B)"
    by (simp_all add: issubclass_iff)
  let ?c1 = "Frame_enter A ctx"
  let ?c2 = "Frame_enter B ?c1"
  have 1: "current (cls B) ?c2 = Inr B"
    by (simp add: current_def enter_current isinstance_def refl)
  have 2: "current (cls A) ?c2 = Inl WrongFrame"
    using unrelated by (simp add: current_def enter_current isinstance_def)
  have ex: "Frame_exit B ?c2 =
      (Inr (), ?c2\<lparr>current_frame := Some A,
                   current_frame_token := (current_frame_token ?c2)
                     (addr B \<mapsto> \<lparr>old_value = Some A, used = True\<rparr>)\<rparr>)"
    by (rule exit_fresh_token) (simp add: enter_token enter_current)
  have 3: "fst (Frame_exit B ?c2) = Inr ()"
    by (simp add: ex)
  have 4: "current (cls A) (snd (Frame_exit B ?c2)) = Inr A"
    by (simp add: ex current_def isinstance_def refl)
  have 5: "fst (with_frame B body ?c1) = fst (body ?c2) \<and>
           current (cls A) (snd (with_frame B body ?c1)) = Inr A \<and>
           Frame_exit B (snd (with_frame B body ?c1))
             = (Inl TokenAlreadyUsed, snd (with_frame B body ?c1))"
    if body: "current_frame_token (snd (body ?c2)) (addr B) = current_frame_token ?c2 (addr B)"
  proof -
    note w = with_frame_restores [of body B "Frame_enter A ctx", OF body]
    have "current (cls A) (snd (with_frame B body ?c1)) = Inr A"
      by (simp add: current_def w(2) enter_current isinstance_def refl)
    then show ?thesis using w(1) w(3) by simp
  qed
  show ?thesis using 1 2 3 4 5 by blast
qed

theorem exclusive_current_frame_witness:
  "\<not> issubclass (cls frame_a) (cls frame_b) \<and> \<not> issubclass (cls frame_b) (cls frame_a) \<and>
   current_frame_token (snd (raising_body (Frame_enter frame_b (Frame_enter frame_a ctx0))))
       (addr frame_b)
     = current_frame_token (Frame_enter frame_b (Frame_enter frame_a ctx0)) (addr frame_b) \<and>
   current RenderFrame (Frame_enter frame_b (Frame_enter frame_a ctx0)) = Inr frame_b \<and>
   current AppRunnerFrame (Frame_enter frame_b (Frame_enter frame_a ctx0)) = Inl WrongFrame \<and>
   fst (with_frame frame_b raising_body (Frame_enter frame_a ctx0)) = Inl (OtherError ''boom'') \<and>
   current AppRunnerFrame (snd (with_frame frame_b raising_body (Frame_enter frame_a ctx0)))
     = Inr frame_a"
  using exclusive_current_frame [of frame_a frame_b ctx0 raising_body]
  by (simp add: frame_a_def frame_b_def raising_body_def issubclass_def)

text \<open>
  The claim as stated, for every bracketed code, is false. When the code bracketed by
  B enters B once more and returns normally, the inner \<^verbatim>\<open>__enter__\<close> replaces the
  token kept on B and the inner \<^verbatim>\<open>__exit__\<close> uses it up; the outer
  \<^verbatim>\<open>__exit__\<close> then raises, B stays current and A is not restored.
\<close>

theorem exclusive_current_frame_counterexample:
  "\<not> issubclass (cls frame_a) (cls frame_b) \<and> \<not> issubclass (cls frame_b) (cls frame_a) \<and>
   fst (reentering_body (Frame_enter frame_b (Frame_enter frame_a ctx0))) = Inr () \<and>
   fst (with_frame frame_b reentering_body (Frame_enter frame_a ctx0))
     = Inl TokenAlreadyUsed \<and>
   current_frame (snd (with_frame frame_b reentering_body (Frame_enter frame_a ctx0)))
     = Some frame_b \<and>
   current (cls frame_a)
       (snd (with_frame frame_b reentering_body (Frame_enter frame_a ctx0)))
     = Inl WrongFrame"
  by (simp add: frame_a_def frame_b_def ctx0_def reentering_body_def with_frame_def
      Frame_enter_def Frame_exit_def current_def isinstance_def issubclass_def)

text \<open>
  Claim C3. For every requested class C, \<^verbatim>\<open>C.current()\<close> fails with
  \<open>NoActiveFrame\<close> when no frame is current, fails with \<open>WrongFrame\<close> when the
  current frame is not an instance of C or of a subclass of C, and returns the current
  frame otherwise. The subclasses of C are C itself, every class when C is
  \<^verbatim>\<open>Frame\<close>, and every class but \<^verbatim>\<open>Frame\<close> when C is \<^verbatim>\<open>StateAccessFrame\<close>.
\<close>

theorem current_lookup:
  "(current_frame ctx = None \<longrightarrow> current C ctx = Inl NoActiveFrame) \<and>
   (\<forall>f. current_frame ctx = Some f \<and> \<not> issubclass (cls f) C
      \<longrightarrow> current C ctx = Inl WrongFrame) \<and>
   (\<forall>f. current_frame ctx = Some f \<and> issubclass (cls f) C \<longrightarrow> current C ctx = Inr f) \<and>
   (\<forall>c. issubclass c C \<longleftrightarrow> c = C \<or> C = Frame \<or> (C = StateAccessFrame \<and> c \<noteq> Frame))"
  by (auto simp: current_def isinstance_def issubclass_iff)

theorem current_lookup_witness:
  "current_frame ctx0 = None \<and> current TaskFrame ctx0 = Inl NoActiveFrame \<and>
   current_frame (Frame_enter frame_b ctx0) = Some frame_b \<and>
   \<not> issubclass (cls frame_b) TaskFrame \<and>
   current TaskFrame (Frame_enter frame_b ctx0) = Inl WrongFrame \<and>
   issubclass (cls frame_b) StateAccessFrame \<and>
   current StateAccessFrame (Frame_enter frame_b ctx0) = Inr frame_b"
  using current_lookup [of ctx0 TaskFrame]
    current_lookup [of "Frame_enter frame_b ctx0" TaskFrame]
    current_lookup [of "Frame_enter frame_b ctx0" StateAccessFrame]
  by (simp add: ctx0_def frame_b_def enter_current issubclass_def)

subsection \<open>Legality checks\<close>

text \<open>
  Claim C4. Let the store hold the property. With the operations of
  \<^verbatim>\<open>StateAccessFrame\<close>, which \<^verbatim>\<open>AppRunnerFrame\<close> and \<^verbatim>\<open>TaskFrame\<close> reach
  through \<^verbatim>\<open>super()\<close>, \<^verbatim>\<open>update_state\<close> fails with \<open>IllegalMutation\<close> when
  the property is an event property or backend-immutable, and \<^verbatim>\<open>reset_state\<close>
  fails with \<open>IllegalReset\<close> when it is an event property; in both cases the app
  runner, and with it the store, and the attributes of the frame are as before the
  call. In a \<^verbatim>\<open>ResetUIEventsFrame\<close>, \<^verbatim>\<open>reset_state\<close> fails with
  \<open>IllegalReset\<close> on every property that is not an event property, and on an event
  property it hands the reset to the store and returns \<^verbatim>\<open>None\<close> when the store
  returns.
\<close>

theorem legality_checks:
  assumes "store_get_prop ops (state r) k pn = Some p"
  shows "(is_event_prop p \<or> backend_immutable p \<longrightarrow>
            (\<forall>c \<in> {StateAccessFrame, AppRunnerFrame, TaskFrame}.
               update_state ops c self r k pn v = (Inl IllegalMutation, self, r))) \<and>
         (is_event_prop p \<longrightarrow>
            (\<forall>c \<in> {StateAccessFrame, AppRunnerFrame, TaskFrame}.
               reset_state ops c self r k pn = (Inl IllegalReset, self, r))) \<and>
         (\<not> is_event_prop p \<longrightarrow>
            reset_state ops ResetUIEventsFrame self r k pn = (Inl IllegalReset, self, r)) \<and>
         (is_event_prop p \<longrightarrow>
            reset_state ops ResetUIEventsFrame self r k pn =
              (case store_reset ops (state r) k pn of
                 (Inl e, s') \<Rightarrow> (Inl e, self, r\<lparr>state := s'\<rparr>)
               | (Inr u, s') \<Rightarrow> (Inr PyNone, self, r\<lparr>state := s'\<rparr>)))"
  using assms
  by (auto simp: update_state_def reset_state_def resolve_simps
      StateAccessFrame_update_state_def AppRunnerFrame_update_state_def
      TaskFrame_update_state_def StateAccessFrame_reset_state_def
      AppRunnerFrame_reset_state_def TaskFrame_reset_state_def
      ResetUIEventsFrame_reset_state_def split: prod.splits sum.splits)

theorem legality_checks_witness:
  "store_get_prop list_store (state runner0) ''k1'' ''clicked'' = Some clicked_prop \<and>
   is_event_prop clicked_prop \<and>
   update_state list_store AppRunnerFrame (AppRunnerFrame_init None) runner0
       ''k1'' ''clicked'' 3
     = (Inl IllegalMutation, AppRunnerFrame_init None, runner0) \<and>
   reset_state list_store TaskFrame Frame_init runner0 ''k1'' ''clicked''
     = (Inl IllegalReset, Frame_init, runner0) \<and>
   fst (reset_state list_store ResetUIEventsFrame Frame_init runner0 ''k1'' ''clicked'')
     = Inr PyNone \<and>
   store_get_prop list_store (state runner0) ''k2'' ''width'' = Some width_prop \<and>
   backend_immutable width_prop \<and> \<not> is_event_prop width_prop \<and>
   update_state list_store StateAccessFrame Frame_init runner0 ''k2'' ''width'' 3
     = (Inl IllegalMutation, Frame_init, runner0) \<and>
   reset_state list_store ResetUIEventsFrame Frame_init runner0 ''k2'' ''width''
     = (Inl IllegalReset, Frame_init, runner0)"
  using legality_checks [where ops = list_store and r = runner0 and k = "''k1''"
      and pn = "''clicked''" and p = clicked_prop and self = "AppRunnerFrame_init None"
      and v = 3]
    legality_checks [where ops = list_store and r = runner0 and k = "''k1''"
      and pn = "''clicked''" and p = clicked_prop and self = Frame_init and v = 3]
    legality_checks [where ops = list_store and r = runner0 and k = "''k2''"
      and pn = "''width''" and p = width_prop and self = Frame_init and v = 3]
  by (simp add: store0_defs)

subsection \<open>Incoming updates\<close>

text \<open>
  Claim C5. In a UIUpdatesFrame, \<^verbatim>\<open>update_state\<close> on a key that the store does not
  hold returns normally (\<^verbatim>\<open>None\<close>): the app runner is as before the call, so the
  store was not written and nothing was pushed, and \<open>mutations\<close> and
  \<open>event_mutations\<close> are unchanged. \<^verbatim>\<open>reset_state\<close> on such a key fails with
  \<open>UnknownProperty\<close>.
\<close>

theorem stale_key:
  assumes "store_get_prop ops (state r) k pn = None"
  shows "UIUpdatesFrame_update_state ops self r k pn v = (Inr PyNone, self, r) \<and>
         UIUpdatesFrame_reset_state ops self r k pn = (Inl UnknownProperty, self, r)"
  using assms
  by (simp add: UIUpdatesFrame_update_state_def UIUpdatesFrame_reset_state_def)

theorem stale_key_witness:
  "store_get_prop list_store (state runner0) ''gone'' ''count'' = None \<and>
   UIUpdatesFrame_update_state list_store UIUpdatesFrame_init runner0 ''gone'' ''count'' 3
     = (Inr PyNone, UIUpdatesFrame_init, runner0) \<and>
   UIUpdatesFrame_reset_state list_store UIUpdatesFrame_init runner0 ''gone'' ''count''
     = (Inl UnknownProperty, UIUpdatesFrame_init, runner0)"
  using stale_key [where ops = list_store and r = runner0 and k = "''gone''"
      and pn = "''count''" and self = UIUpdatesFrame_init and v = 3]
  by (simp add: store0_defs)

text \<open>
  Claim C8. In a UIUpdatesFrame, let the store hold the property. When the store
  reports a change for \<^verbatim>\<open>update_state\<close> or \<^verbatim>\<open>reset_state\<close>, the pair is added
  to \<open>mutations\<close>, it is added to \<open>event_mutations\<close> exactly when the property is
  an event property, and the property is passed to \<^verbatim>\<open>set_prop_value\<close>. When the
  store reports no change, the attributes of the frame and the calls received by the
  outgoing-diff collaborator are as before.
\<close>

theorem ui_updates_bookkeeping:
  assumes "store_get_prop ops (state r) k pn = Some p"
  shows "(store_update ops (state r) k pn v = (Inr True, s') \<longrightarrow>
            UIUpdatesFrame_update_state ops self r k pn v =
              (Inr PyNone,
               self\<lparr>mutations := finsert (k, pn) (mutations self),
                    event_mutations :=
                      (if is_event_prop p then finsert (k, pn) (event_mutations self)
                       else event_mutations self)\<rparr>,
               r\<lparr>state := s', ui_prop_state := ui_prop_state r @ [p]\<rparr>)) \<and>
         (store_update ops (state r) k pn v = (Inr False, s') \<longrightarrow>
            UIUpdatesFrame_update_state ops self r k pn v
              = (Inr PyNone, self, r\<lparr>state := s'\<rparr>)) \<and>
         (store_reset ops (state r) k pn = (Inr True, s') \<longrightarrow>
            UIUpdatesFrame_reset_state ops self r k pn =
              (Inr PyNone,
               self\<lparr>mutations := finsert (k, pn) (mutations self),
                    event_mutations :=
                      (if is_event_prop p then finsert (k, pn) (event_mutations self)
                       else event_mutations self)\<rparr>,
               r\<lparr>state := s', ui_prop_state := ui_prop_state r @ [p]\<rparr>)) \<and>
         (store_reset ops (state r) k pn = (Inr False, s') \<longrightarrow>
            UIUpdatesFrame_reset_state ops self r k pn
              = (Inr PyNone, self, r\<lparr>state := s'\<rparr>))"
  using assms
  by (simp add: UIUpdatesFrame_update_state_def UIUpdatesFrame_reset_state_def
      record_ui_mutation_def)

theorem ui_updates_bookkeeping_witness:
  "store_get_prop list_store (state runner0) ''k1'' ''clicked'' = Some clicked_prop \<and>
   fst (store_update list_store (state runner0) ''k1'' ''clicked'' 0) = Inr True \<and>
   mutations (fst (snd (UIUpdatesFrame_update_state list_store UIUpdatesFrame_init runner0
      ''k1'' ''clicked'' 0))) = {|(''k1'', ''clicked'')|} \<and>
   event_mutations (fst (snd (UIUpdatesFrame_update_state list_store UIUpdatesFrame_init
      runner0 ''k1'' ''clicked'' 0))) = {|(''k1'', ''clicked'')|} \<and>
   ui_prop_state (snd (snd (UIUpdatesFrame_update_state list_store UIUpdatesFrame_init
      runner0 ''k1'' ''clicked'' 0))) = [clicked_prop] \<and>
   store_get_prop list_store (state runner0) ''k1'' ''count'' = Some count_prop \<and>
   fst (store_update list_store (state runner0) ''k1'' ''count'' 5) = Inr False \<and>
   UIUpdatesFrame_update_state list_store UIUpdatesFrame_init runner0 ''k1'' ''count'' 5
     = (Inr PyNone, UIUpdatesFrame_init, runner0) \<and>
   fst (store_reset list_store (state runner0) ''k1'' ''count'') = Inr True \<and>
   mutations (fst (snd (UIUpdatesFrame_reset_state list_store UIUpdatesFrame_init runner0
      ''k1'' ''count''))) = {|(''k1'', ''count'')|} \<and>
   event_mutations (fst (snd (UIUpdatesFrame_reset_state list_store UIUpdatesFrame_init
      runner0 ''k1'' ''count''))) = {||} \<and>
   ui_prop_state (snd (snd (UIUpdatesFrame_reset_state list_store UIUpdatesFrame_init
      runner0 ''k1'' ''count''))) = [count_prop]"
  using ui_updates_bookkeeping [where ops = list_store and r = runner0 and k = "''k1''"
      and pn = "''clicked''" and p = clicked_prop and self = UIUpdatesFrame_init and v = 0
      and s' = "snd (store_update list_store (state runner0) ''k1'' ''clicked'' 0)"]
    ui_updates_bookkeeping [where ops = list_store and r = runner0 and k = "''k1''"
      and pn = "''count''" and p = count_prop and self = UIUpdatesFrame_init and v = 5
      and s' = "snd (store_update list_store (state runner0) ''k1'' ''count'' 5)"]
    ui_updates_bookkeeping [where ops = list_store and r = runner0 and k = "''k1''"
      and pn = "''count''" and p = count_prop and self = UIUpdatesFrame_init and v = 5
      and s' = "snd (store_reset list_store (state runner0) ''k1'' ''count'')"]
  by (simp add: store0_defs)

text \<open>
  Claim C10. A UIUpdatesFrame makes no legality check. For every property the store
  holds, whatever its flags, \<^verbatim>\<open>update_state\<close> and \<^verbatim>\<open>reset_state\<close> hand the write
  or the reset to the store, return normally exactly when the store does, and raise
  nothing but what the store raises; so neither \<open>IllegalMutation\<close> nor
  \<open>IllegalReset\<close> comes from the frame. The operations of \<^verbatim>\<open>StateAccessFrame\<close> on
  the same arguments fail with \<open>IllegalMutation\<close> for an event or backend-immutable
  property and with \<open>IllegalReset\<close> for an event property.
\<close>

theorem ui_updates_unchecked:
  assumes "store_get_prop ops (state r) k pn = Some p"
  shows "state (snd (snd (UIUpdatesFrame_update_state ops self r k pn v)))
           = snd (store_update ops (state r) k pn v) \<and>
         (fst (UIUpdatesFrame_update_state ops self r k pn v) = Inr PyNone
            \<longleftrightarrow> (\<exists>u. fst (store_update ops (state r) k pn v) = Inr u)) \<and>
         (\<forall>e. fst (UIUpdatesFrame_update_state ops self r k pn v) = Inl e
            \<longrightarrow> fst (store_update ops (state r) k pn v) = Inl e) \<and>
         state (snd (snd (UIUpdatesFrame_reset_state ops self r k pn)))
           = snd (store_reset ops (state r) k pn) \<and>
         (fst (UIUpdatesFrame_reset_state ops self r k pn) = Inr PyNone
            \<longleftrightarrow> (\<exists>u. fst (store_reset ops (state r) k pn) = Inr u)) \<and>
         (\<forall>e. fst (UIUpdatesFrame_reset_state ops self r k pn) = Inl e
            \<longrightarrow> fst (store_reset ops (state r) k pn) = Inl e) \<and>
         (is_event_prop p \<or> backend_immutable p \<longrightarrow>
            StateAccessFrame_update_state ops r k pn v = (Inl IllegalMutation, r)) \<and>
         (is_event_prop p \<longrightarrow>
            StateAccessFrame_reset_state ops r k pn = (Inl IllegalReset, r))"
  using assms
  by (auto simp: UIUpdatesFrame_update_state_def UIUpdatesFrame_reset_state_def
      StateAccessFrame_update_state_def StateAccessFrame_reset_state_def
      split: prod.splits sum.splits)

theorem ui_updates_unchecked_witness:
  "store_get_prop list_store (state runner0) ''k1'' ''clicked'' = Some clicked_prop \<and>
   is_event_prop clicked_prop \<and>
   fst (UIUpdatesFrame_update_state list_store UIUpdatesFrame_init runner0
      ''k1'' ''clicked'' 0) = Inr PyNone \<and>
   fst (UIUpdatesFrame_reset_state list_store UIUpdatesFrame_init runner0
      ''k1'' ''clicked'') = Inr PyNone \<and>
   StateAccessFrame_update_state list_store runner0 ''k1'' ''clicked'' 0
     = (Inl IllegalMutation, runner0) \<and>
   StateAccessFrame_reset_state list_store runner0 ''k1'' ''clicked''
     = (Inl IllegalReset, runner0) \<and>
   store_get_prop list_store (state runner0) ''k2'' ''width'' = Some width_prop \<and>
   backend_immutable width_prop \<and>
   fst (UIUpdatesFrame_update_state list_store UIUpdatesFrame_init runner0
      ''k2'' ''width'' 100) = Inr PyNone \<and>
   StateAccessFrame_update_state list_store runner0 ''k2'' ''width'' 100
     = (Inl IllegalMutation, runner0)"
  using ui_updates_unchecked [where ops = list_store and r = runner0 and k = "''k1''"
      and pn = "''clicked''" and p = clicked_prop and self = UIUpdatesFrame_init and v = 0]
    ui_updates_unchecked [where ops = list_store and r = runner0 and k = "''k2''"
      and pn = "''width''" and p = width_prop and self = UIUpdatesFrame_init and v = 100]
  by (simp add: store0_defs UIUpdatesFrame_update_state_def UIUpdatesFrame_reset_state_def
      record_ui_mutation_def)

subsection \<open>Rendering\<close>

text \<open>
  Claim C6, as the source has it. In a RenderFrame, \<^verbatim>\<open>get_state\<close>,
  \<^verbatim>\<open>update_state\<close> and \<^verbatim>\<open>reset_state\<close> fail with \<open>AccessDenied\<close> and leave
  the app runner and the frame as they were. The class does not override
  \<^verbatim>\<open>init_props\<close>, \<^verbatim>\<open>has_prop\<close> and \<^verbatim>\<open>get_props\<close>: these run the
  definitions of \<^verbatim>\<open>StateAccessFrame\<close> and pass through to the store.
  \<^verbatim>\<open>prop_changed(prop)\<close> returns the answer of the outgoing-diff collaborator.
\<close>

theorem render_frame_operations:
  "get_state ops RenderFrame self r k pn = (Inl AccessDenied, self) \<and>
   update_state ops RenderFrame self r k pn v = (Inl AccessDenied, self, r) \<and>
   reset_state ops RenderFrame self r k pn = (Inl AccessDenied, self, r) \<and>
   init_props ops RenderFrame r k pvs =
     (fst (store_init_props ops (state r) k pvs),
      r\<lparr>state := snd (store_init_props ops (state r) k pvs)\<rparr>) \<and>
   has_prop ops RenderFrame r k pn = store_has_prop ops (state r) k pn \<and>
   get_props ops RenderFrame r k = store_get_props ops (state r) k \<and>
   RenderFrame_prop_changed ops r p = ui_prop_changed ops (ui_prop_state r) (state r) p"
  by (simp add: get_state_def update_state_def reset_state_def init_props_def has_prop_def
      get_props_def resolve_simps RenderFrame_get_state_def RenderFrame_update_state_def
      RenderFrame_reset_state_def StateAccessFrame_init_props_def
      StateAccessFrame_has_prop_def StateAccessFrame_get_props_def
      RenderFrame_prop_changed_def split: prod.splits)

text \<open>
  The claim as stated, that \<^verbatim>\<open>has_prop\<close> fails with \<open>AccessDenied\<close> in every
  RenderFrame, is false: on the sample store the call returns \<^verbatim>\<open>True\<close>.
\<close>

theorem render_frame_has_prop_counterexample:
  "has_prop list_store RenderFrame runner0 ''k1'' ''count'' = Inr True \<and>
   has_prop list_store RenderFrame runner0 ''k1'' ''count'' \<noteq> Inl AccessDenied"
  by (simp add: has_prop_def resolve_simps StateAccessFrame_has_prop_def store0_defs)

text \<open>
  \<^verbatim>\<open>trigger_event\<close> is left out of the statement above. The override of RenderFrame
  declares \<^verbatim>\<open>(self, prop, value)\<close>, so its body, which raises
  \<^verbatim>\<open>Exception("Cannot access state.")\<close>, runs for a call with two arguments, while
  the call with the three arguments of \<^verbatim>\<open>StateAccessFrame.trigger_event\<close> raises a
  \<^verbatim>\<open>TypeError\<close>. Either way the app runner is left as it was.
\<close>

lemma render_frame_trigger_event:
  "trigger_event ops RenderFrame r k pn v = (Inl TypeError, r)"
  "RenderFrame_trigger_event r p v = (Inl AccessDenied, r)"
  by (simp_all add: trigger_event_def resolve_simps RenderFrame_trigger_event_def)

subsection \<open>Writes that change nothing\<close>

text \<open>
  Claim C7, as the source has it. Take a property that is neither an event property
  nor backend-immutable, and a write for which the store reports \<open>changed\<close>.
  \<^verbatim>\<open>StateAccessFrame.update_state\<close> returns that report. The overrides in
  \<^verbatim>\<open>AppRunnerFrame\<close>, \<^verbatim>\<open>TaskFrame\<close> and \<^verbatim>\<open>UIUpdatesFrame\<close> return
  \<^verbatim>\<open>None\<close>; on a change they add the pair to \<open>mutations\<close>, enqueue it, respectively
  add it to \<open>mutations\<close> and push the property to the outgoing-diff collaborator.
  \<^verbatim>\<open>ResetUIEventsFrame\<close> and \<^verbatim>\<open>RenderFrame\<close> reject the call. In every class, a
  write for which the store reports no change, such as the write of the value the
  property already holds, leaves the attributes of the frame as they were, enqueues
  nothing and pushes nothing to the outgoing-diff collaborator.
\<close>

theorem update_state_result:
  assumes "store_get_prop ops (state r) k pn = Some p"
    and "\<not> is_event_prop p" and "\<not> backend_immutable p"
    and "store_update ops (state r) k pn v = (Inr changed, s')"
  shows "update_state ops StateAccessFrame self r k pn v
           = (Inr (PyBool changed), self, r\<lparr>state := s'\<rparr>) \<and>
         update_state ops AppRunnerFrame self r k pn v =
           (Inr PyNone,
            if changed then self\<lparr>mutations := finsert (k, pn) (mutations self)\<rparr> else self,
            r\<lparr>state := s'\<rparr>) \<and>
         update_state ops TaskFrame self r k pn v =
           (Inr PyNone, self,
            if changed then r\<lparr>state := s', task_mutations := task_mutations r @ [ [(k, pn)] ]\<rparr>
            else r\<lparr>state := s'\<rparr>) \<and>
         update_state ops UIUpdatesFrame self r k pn v =
           (Inr PyNone,
            if changed then self\<lparr>mutations := finsert (k, pn) (mutations self)\<rparr> else self,
            if changed then r\<lparr>state := s', ui_prop_state := ui_prop_state r @ [p]\<rparr>
            else r\<lparr>state := s'\<rparr>) \<and>
         update_state ops ResetUIEventsFrame self r k pn v = (Inl AccessDenied, self, r) \<and>
         update_state ops RenderFrame self r k pn v = (Inl AccessDenied, self, r) \<and>
         (\<not> changed \<longrightarrow>
            (\<forall>c. fst (snd (update_state ops c self r k pn v)) = self \<and>
                 ui_prop_state (snd (snd (update_state ops c self r k pn v)))
                   = ui_prop_state r \<and>
                 task_mutations (snd (snd (update_state ops c self r k pn v)))
                   = task_mutations r))"
proof -
  have base: "update_state ops StateAccessFrame self r k pn v
      = (Inr (PyBool changed), self, r\<lparr>state := s'\<rparr>)"
    using assms
    by (simp add: update_state_def resolve_simps StateAccessFrame_update_state_def)
  have app: "update_state ops AppRunnerFrame self r k pn v =
      (Inr PyNone,
       if changed then self\<lparr>mutations := finsert (k, pn) (mutations self)\<rparr> else self,
       r\<lparr>state := s'\<rparr>)"
    using assms
    by (simp add: update_state_def resolve_simps StateAccessFrame_update_state_def
        AppRunnerFrame_update_state_def truthy_def)
  have task: "update_state ops TaskFrame self r k pn v =
      (Inr PyNone, self,
       if changed then r\<lparr>state := s', task_mutations := task_mutations r @ [ [(k, pn)] ]\<rparr>
       else r\<lparr>state := s'\<rparr>)"
    using assms
    by (simp add: update_state_def resolve_simps StateAccessFrame_update_state_def
        TaskFrame_update_state_def truthy_def)
  have ui: "update_state ops UIUpdatesFrame self r k pn v =
      (Inr PyNone,
       if changed then self\<lparr>mutations := finsert (k, pn) (mutations self)\<rparr> else self,
       if changed then r\<lparr>state := s', ui_prop_state := ui_prop_state r @ [p]\<rparr>
       else r\<lparr>state := s'\<rparr>)"
    using assms
    by (simp add: update_state_def resolve_simps UIUpdatesFrame_update_state_def
        record_ui_mutation_def)
  have reset_ui: "update_state ops ResetUIEventsFrame self r k pn v = (Inl AccessDenied, self, r)"
    by (simp add: update_state_def resolve_simps ResetUIEventsFrame_update_state_def)
  have render: "update_state ops RenderFrame self r k pn v = (Inl AccessDenied, self, r)"
    by (simp add: update_state_def resolve_simps RenderFrame_update_state_def)
  have frame: "update_state ops Frame self r k pn v = (Inl AttributeError, self, r)"
    by (simp add: update_state_def resolve_simps)
  have unchanged:
    "fst (snd (update_state ops c self r k pn v)) = self \<and>
     ui_prop_state (snd (snd (update_state ops c self r k pn v))) = ui_prop_state r \<and>
     task_mutations (snd (snd (update_state ops c self r k pn v))) = task_mutations r"
    if "\<not> changed" for c
    using that by (cases c) (simp_all add: base app task ui reset_ui render frame)
  show ?thesis
    using base app task ui reset_ui render unchanged by blast
qed

theorem update_state_result_witness:
  "store_get_prop list_store (state runner0) ''k1'' ''count'' = Some count_prop \<and>
   \<not> is_event_prop count_prop \<and> \<not> backend_immutable count_prop \<and>
   store_update list_store (state runner0) ''k1'' ''count'' 5 = (Inr False, store0) \<and>
   update_state list_store StateAccessFrame Frame_init runner0 ''k1'' ''count'' 5
     = (Inr (PyBool False), Frame_init, runner0) \<and>
   update_state list_store AppRunnerFrame (AppRunnerFrame_init None) runner0
       ''k1'' ''count'' 5
     = (Inr PyNone, AppRunnerFrame_init None, runner0) \<and>
   update_state list_store TaskFrame Frame_init runner0 ''k1'' ''count'' 5
     = (Inr PyNone, Frame_init, runner0) \<and>
   update_state list_store UIUpdatesFrame UIUpdatesFrame_init runner0 ''k1'' ''count'' 5
     = (Inr PyNone, UIUpdatesFrame_init, runner0) \<and>
   store_update list_store (state runner0) ''k1'' ''count'' 7
     = (Inr True, set_value (''k1'', ''count'') 7 store0) \<and>
   ui_prop_state (snd (snd (update_state list_store UIUpdatesFrame UIUpdatesFrame_init
      runner0 ''k1'' ''count'' 7))) = [count_prop] \<and>
   mutations (fst (snd (update_state list_store UIUpdatesFrame UIUpdatesFrame_init
      runner0 ''k1'' ''count'' 7))) = {|(''k1'', ''count'')|}"
  using update_state_result [where ops = list_store and r = runner0 and k = "''k1''"
      and pn = "''count''" and p = count_prop and v = 5 and changed = False
      and s' = store0 and self = Frame_init]
    update_state_result [where ops = list_store and r = runner0 and k = "''k1''"
      and pn = "''count''" and p = count_prop and v = 5 and changed = False
      and s' = store0 and self = "AppRunnerFrame_init None"]
    update_state_result [where ops = list_store and r = runner0 and k = "''k1''"
      and pn = "''count''" and p = count_prop and v = 7 and changed = True
      and s' = "set_value (''k1'', ''count'') 7 store0" and self = UIUpdatesFrame_init]
  by (simp add: list_store_def runner0_def store0_def count_prop_def set_value_def
      Frame_init_def AppRunnerFrame_init_def UIUpdatesFrame_init_def)

text \<open>
  The claim as stated, that \<^verbatim>\<open>update_state\<close> of an AppRunnerFrame returns whether
  a change occurred, is false: where the store reports a change, the call returns
  \<^verbatim>\<open>None\<close>.
\<close>

theorem update_state_result_counterexample:
  "store_get_prop list_store (state runner0) ''k1'' ''count'' = Some count_prop \<and>
   \<not> is_event_prop count_prop \<and> \<not> backend_immutable count_prop \<and>
   fst (store_update list_store (state runner0) ''k1'' ''count'' 7) = Inr True \<and>
   fst (update_state list_store AppRunnerFrame (AppRunnerFrame_init None) runner0
      ''k1'' ''count'' 7) = Inr PyNone \<and>
   fst (update_state list_store AppRunnerFrame (AppRunnerFrame_init None) runner0
      ''k1'' ''count'' 7) \<noteq> Inr (PyBool True)"
  by (simp add: update_state_def resolve_simps AppRunnerFrame_update_state_def
      StateAccessFrame_update_state_def truthy_def store0_defs)

subsection \<open>Task mutations\<close>

text \<open>
  Claim C9. In a TaskFrame, a call of \<^verbatim>\<open>update_state\<close> or \<^verbatim>\<open>reset_state\<close>
  that passes the legality checks and for which the store reports a change calls
  \<^verbatim>\<open>enqueue_task_mutations\<close> once, with the list of the single (key, prop) pair. Every
  other call, one that changes nothing, one that fails the legality checks, one on an
  unknown property or one in which the store raises, enqueues nothing.
\<close>

theorem task_frame_enqueue:
  "task_mutations (snd (TaskFrame_update_state ops r k pn v)) =
     (if (\<exists>p. store_get_prop ops (state r) k pn = Some p
               \<and> \<not> is_event_prop p \<and> \<not> backend_immutable p)
          \<and> fst (store_update ops (state r) k pn v) = Inr True
      then task_mutations r @ [ [(k, pn)] ] else task_mutations r) \<and>
   task_mutations (snd (TaskFrame_reset_state ops r k pn)) =
     (if (\<exists>p. store_get_prop ops (state r) k pn = Some p \<and> \<not> is_event_prop p)
          \<and> fst (store_reset ops (state r) k pn) = Inr True
      then task_mutations r @ [ [(k, pn)] ] else task_mutations r)"
  by (auto simp: TaskFrame_update_state_def TaskFrame_reset_state_def
      StateAccessFrame_update_state_def StateAccessFrame_reset_state_def truthy_def
      split: option.splits prod.splits sum.splits)

theorem task_frame_enqueue_witness:
  "task_mutations (snd (TaskFrame_update_state list_store runner0 ''k1'' ''count'' 7))
     = [ [(''k1'', ''count'')] ] \<and>
   task_mutations (snd (TaskFrame_update_state list_store runner0 ''k1'' ''count'' 5)) = [] \<and>
   task_mutations (snd (TaskFrame_update_state list_store runner0 ''k1'' ''clicked'' 0)) = [] \<and>
   task_mutations (snd (TaskFrame_reset_state list_store runner0 ''k1'' ''count''))
     = [ [(''k1'', ''count'')] ] \<and>
   task_mutations (snd (TaskFrame_reset_state list_store runner0 ''k2'' ''width'')) = []"
  using task_frame_enqueue [of list_store runner0 "''k1''" "''count''" 7]
    task_frame_enqueue [of list_store runner0 "''k1''" "''count''" 5]
    task_frame_enqueue [of list_store runner0 "''k1''" "''clicked''" 0]
    task_frame_enqueue [of list_store runner0 "''k2''" "''width''" 0]
  by (simp add: store0_defs)

end
